theory Spec2Isabelle
  imports Main
begin

section \<open>Python values, exceptions and external objects\<close>

text \<open>
  The program is a Streamlit script (\<^verbatim>\<open>streamlit.py\<close>).  Its state lives in
  \<^verbatim>\<open>st.session_state\<close>; everything else it does is a call into an external library
  (the UI framework, the MCP client and agent, the LLM binding).  The model threads one
  record through every block of the script: the session state, the list of messages the
  script has shown, and the list of external calls it has made, in order.
\<close>

text \<open>
  A raised exception, with its class name and \<^verbatim>\<open>str(e)\<close>.  \<open>PyExn\<close> is an instance of
  \<^verbatim>\<open>Exception\<close>, which \<^verbatim>\<open>except Exception\<close> catches.  \<open>PyBaseExn\<close> is an instance of
  \<^verbatim>\<open>BaseException\<close> that is not an \<^verbatim>\<open>Exception\<close> (\<^verbatim>\<open>KeyboardInterrupt\<close>,
  \<^verbatim>\<open>SystemExit\<close>, \<^verbatim>\<open>asyncio.CancelledError\<close>): only a bare \<^verbatim>\<open>except\<close> catches it.
\<close>

datatype exn = PyExn (cls: string) (msg: string) | PyBaseExn (cls: string) (msg: string)

fun is_Exception :: "exn \<Rightarrow> bool" where
  "is_Exception (PyExn c m) = True"
| "is_Exception (PyBaseExn c m) = False"

text \<open>
  Reading \<^verbatim>\<open>st.session_state.key\<close> for a key that is not set raises AttributeError.
  The wording of the message belongs to the UI framework; no theorem depends on it.
\<close>

definition AttributeError :: "string \<Rightarrow> exn" where
  "AttributeError key = PyExn ''AttributeError'' (''st.session_state has no attribute '' @ key)"

text \<open>A value that is either Python's \<^verbatim>\<open>None\<close> or an object.\<close>

datatype 'a pyval = PyNone | Obj 'a

text \<open>\<^verbatim>\<open>if v:\<close> for such a value: \<^verbatim>\<open>None\<close> is false, a plain object is true.\<close>

fun truthy :: "'a pyval \<Rightarrow> bool" where
  "truthy PyNone = False"
| "truthy (Obj x) = True"

text \<open>
  The external objects, each identified by the arguments it was constructed from:
  \<^verbatim>\<open>ChatGroq(model=m)\<close>, \<^verbatim>\<open>MCPClient.from_config_file(f)\<close> and
  \<^verbatim>\<open>MCPAgent(llm=l, client=c, max_steps=n, memory_enabled=b)\<close>.
\<close>

datatype llm = ChatGroq (llm_model: string)

datatype client = MCPClient (client_config_file: string)

datatype agent = MCPAgent (agent_llm: llm) (agent_client: client)
  (agent_max_steps: nat) (agent_memory_enabled: bool)

text \<open>A transcript entry, the dict \<^verbatim>\<open>{"role": r, "content": c}\<close>.\<close>

record entry =
  role :: string
  content :: string

text \<open>What the script shows: \<^verbatim>\<open>st.error\<close>, \<^verbatim>\<open>st.success\<close>, \<^verbatim>\<open>st.spinner\<close>.\<close>

datatype ui_event = StError string | StSuccess string | StSpinner string

text \<open>The calls the script makes into the external libraries.\<close>

datatype call =
    Call_from_config_file string
  | Call_ChatGroq string
  | Call_MCPAgent llm client nat bool
  | Call_run agent string
  | Call_clear_conversation_history agent
  | Call_close_all_sessions client
  | Call_experimental_rerun

text \<open>
  The behaviour of the external libraries, as far as the script observes it: whether a
  constructor or method raises (\<open>Some e\<close>) or returns, what \<^verbatim>\<open>agent.run\<close> answers, and
  the keys of the \<^verbatim>\<open>sessions\<close> dict of a client.
\<close>

record env =
  from_config_file_raises :: "string \<Rightarrow> exn option"
  ChatGroq_raises :: "string \<Rightarrow> exn option"
  MCPAgent_raises :: "llm \<Rightarrow> client \<Rightarrow> nat \<Rightarrow> bool \<Rightarrow> exn option"
  run :: "agent \<Rightarrow> string \<Rightarrow> exn + string"
  clear_conversation_history_raises :: "agent \<Rightarrow> exn option"
  sessions :: "client \<Rightarrow> string list"
  close_all_sessions_raises :: "client \<Rightarrow> exn option"

text \<open>
  The state threaded through the script.  The first four fields are the keys of
  \<^verbatim>\<open>st.session_state\<close>: \<open>None\<close> is a key that is not set, \<open>Some PyNone\<close> a key set to
  \<^verbatim>\<open>None\<close>.  \<open>shown\<close> and \<open>calls\<close> are the two logs.
\<close>

record app =
  messages :: "entry list option"
  agent :: "agent pyval option"
  client :: "client pyval option"
  selected_model :: "string option"
  shown :: "ui_event list"
  calls :: "call list"

text \<open>How a block of the script ends.  \<^verbatim>\<open>st.experimental_rerun()\<close> stops the script run
  and asks the framework for a new one; it is a control signal of the framework, which
  \<^verbatim>\<open>except Exception\<close> does not catch.  \<open>Raised e\<close> is an exception that leaves the block.\<close>

datatype outcome = Completed | Rerun | Raised exn

definition display :: "ui_event \<Rightarrow> app \<Rightarrow> app" where
  "display ev s = s\<lparr>shown := shown s @ [ev]\<rparr>"

definition invoke :: "call \<Rightarrow> app \<Rightarrow> app" where
  "invoke c s = s\<lparr>calls := calls s @ [c]\<rparr>"

text \<open>A session in which nothing has run yet: no key is set.\<close>

definition fresh_session :: app where
  "fresh_session = \<lparr>messages = None, agent = None, client = None, selected_model = None,
     shown = [], calls = []\<rparr>"

section \<open>Session state initialisation (lines 79 to 84)\<close>

definition init_session_state :: "app \<Rightarrow> app" where
  "init_session_state s =
     (let s1 = (if messages s = None then s\<lparr>messages := Some []\<rparr> else s);
          s2 = (if agent s1 = None then s1\<lparr>agent := Some PyNone\<rparr> else s1);
          s3 = (if client s2 = None then s2\<lparr>client := Some PyNone\<rparr> else s2)
      in s3)"

section \<open>The agent initializer (lines 86 to 116)\<close>

text \<open>Python's \<^verbatim>\<open>sub in s\<close> on strings: \<open>sub\<close> occurs in \<open>s\<close> as a contiguous run.\<close>

fun py_in :: "string \<Rightarrow> string \<Rightarrow> bool" where
  "py_in sub [] = (sub = [])"
| "py_in sub (c # cs) = (take (length sub) (c # cs) = sub \<or> py_in sub cs)"

text \<open>The three constructors: the call is logged, then it raises or returns the object.\<close>

definition new_client :: "env \<Rightarrow> string \<Rightarrow> app \<Rightarrow> (exn + client) \<times> app" where
  "new_client ev f s =
     (case from_config_file_raises ev f of
        Some e \<Rightarrow> Inl e
      | None \<Rightarrow> Inr (MCPClient f),
      invoke (Call_from_config_file f) s)"

definition new_llm :: "env \<Rightarrow> string \<Rightarrow> app \<Rightarrow> (exn + llm) \<times> app" where
  "new_llm ev m s =
     (case ChatGroq_raises ev m of
        Some e \<Rightarrow> Inl e
      | None \<Rightarrow> Inr (ChatGroq m),
      invoke (Call_ChatGroq m) s)"

definition new_agent :: "env \<Rightarrow> llm \<Rightarrow> client \<Rightarrow> nat \<Rightarrow> bool \<Rightarrow> app \<Rightarrow> (exn + agent) \<times> app" where
  "new_agent ev l c n b s =
     (case MCPAgent_raises ev l c n b of
        Some e \<Rightarrow> Inl e
      | None \<Rightarrow> Inr (MCPAgent l c n b),
      invoke (Call_MCPAgent l c n b) s)"

text \<open>The body of the \<^verbatim>\<open>try\<close>: the first exception ends it.\<close>

definition initialize_agent_try :: "env \<Rightarrow> app \<Rightarrow> (exn + client \<times> agent) \<times> app" where
  "initialize_agent_try ev s =
     (let config_file = ''browser_mcp.json'' in
      case new_client ev config_file s of
        (Inl e, s1) \<Rightarrow> (Inl e, s1)
      | (Inr c, s1) \<Rightarrow>
          (case selected_model s1 of
             None \<Rightarrow> (Inl (AttributeError ''selected_model''), s1)
           | Some model \<Rightarrow>
               (case (if py_in ''groq'' model
                      then new_llm ev model s1
                      else new_llm ev ''qwen-qwq-32b'' s1) of
                  (Inl e, s2) \<Rightarrow> (Inl e, s2)
                | (Inr l, s2) \<Rightarrow>
                    (case new_agent ev l c 15 True s2 of
                       (Inl e, s3) \<Rightarrow> (Inl e, s3)
                     | (Inr a, s3) \<Rightarrow> (Inr (c, a), s3)))))"

text \<open>
  \<^verbatim>\<open>initialize_agent\<close>: the pair \<^verbatim>\<open>(client, agent)\<close> it returns, and the state.  The
  handler of line 114 is \<^verbatim>\<open>except Exception\<close>; any other exception leaves the function.
\<close>

definition initialize_agent ::
  "env \<Rightarrow> app \<Rightarrow> (exn + client pyval \<times> agent pyval) \<times> app" where
  "initialize_agent ev s =
     (case initialize_agent_try ev s of
        (Inr (c, a), s1) \<Rightarrow> (Inr (Obj c, Obj a), s1)
      | (Inl e, s1) \<Rightarrow>
          if is_Exception e
          then (Inr (PyNone, PyNone),
                display (StError (''Error initializing agent: '' @ msg e)) s1)
          else (Inl e, s1))"

section \<open>The configuration loader (lines 118 to 126)\<close>

text \<open>A parsed JSON value; an object is the dict that \<^verbatim>\<open>json.load\<close> builds, as its items.\<close>

datatype json =
    JNull
  | JBool bool
  | JNumber string
  | JString string
  | JArray "json list"
  | JObject "(string \<times> json) list"

text \<open>\<^verbatim>\<open>config.get(key, default)\<close>: only a dict has the method.\<close>

fun dict_get :: "json \<Rightarrow> string \<Rightarrow> json \<Rightarrow> exn + json" where
  "dict_get (JObject kvs) key dflt =
     (case map_of kvs key of Some v \<Rightarrow> Inr v | None \<Rightarrow> Inr dflt)"
| "dict_get v key dflt = Inl (PyExn ''AttributeError'' ''object has no attribute get'')"

text \<open>
  The function under the decorator (lines 119 to 126).  Its argument is the outcome of
  lines 122 and 123, opening \<^verbatim>\<open>browser_mcp.json\<close> and parsing it with \<^verbatim>\<open>json.load\<close>:
  \<open>Inl e\<close> when either raises, \<open>Inr config\<close> with the parsed value otherwise.  The bare
  \<^verbatim>\<open>except\<close> of line 125 catches every exception, of either kind.
\<close>

definition load_models_try :: "exn + json \<Rightarrow> exn + json" where
  "load_models_try loaded =
     (case loaded of
        Inl e \<Rightarrow> Inl e
      | Inr config \<Rightarrow> dict_get config ''models'' (JArray [JString ''qwen-qwq-32b'']))"

definition load_models_body :: "exn + json \<Rightarrow> json" where
  "load_models_body loaded =
     (case load_models_try loaded of
        Inr models \<Rightarrow> models
      | Inl e \<Rightarrow> JArray [JString ''qwen-qwq-32b'', JString ''llama3-8b-8192'',
                         JString ''llama3-70b-8192''])"

text \<open>
  \<^verbatim>\<open>load_models\<close> as the script calls it, under \<^verbatim>\<open>@st.cache_data\<close> (line 118).  The cache
  belongs to the process; the function has no argument, so the cache holds at most one
  result.  A call that finds a result returns it and does not run the body, so the file
  is not read; a call that finds none runs the body and stores what it returns.
\<close>

definition load_models :: "json option \<Rightarrow> exn + json \<Rightarrow> json \<times> json option" where
  "load_models cache loaded =
     (case cache of
        Some cached \<Rightarrow> (cached, cache)
      | None \<Rightarrow> (let models = load_models_body loaded in (models, Some models)))"

section \<open>The New Conversation button (lines 147 to 150)\<close>

text \<open>\<open>pressed\<close> is what \<^verbatim>\<open>st.button("New Conversation")\<close> returns.\<close>

definition new_conversation :: "env \<Rightarrow> bool \<Rightarrow> app \<Rightarrow> outcome \<times> app" where
  "new_conversation ev pressed s =
     (if pressed then
        (let s1 = s\<lparr>messages := Some []\<rparr> in
         case agent s1 of
           None \<Rightarrow> (Raised (AttributeError ''agent''), s1)
         | Some PyNone \<Rightarrow> (Completed, s1)
         | Some (Obj a) \<Rightarrow>
             (let s2 = invoke (Call_clear_conversation_history a) s1 in
              case clear_conversation_history_raises ev a of
                Some e \<Rightarrow> (Raised e, s2)
              | None \<Rightarrow> (Completed, s2)))
      else (Completed, s))"

section \<open>The agent initialization block (lines 168 to 174)\<close>

text \<open>The test of line 168; \<^verbatim>\<open>or\<close> reads the client only when the agent is not \<^verbatim>\<open>None\<close>.\<close>

definition needs_agent :: "app \<Rightarrow> exn + bool" where
  "needs_agent s =
     (case agent s of
        None \<Rightarrow> Inl (AttributeError ''agent'')
      | Some PyNone \<Rightarrow> Inr True
      | Some (Obj a) \<Rightarrow>
          (case client s of
             None \<Rightarrow> Inl (AttributeError ''client'')
           | Some c \<Rightarrow> Inr (c = PyNone)))"

definition agent_initialization_block :: "env \<Rightarrow> app \<Rightarrow> outcome \<times> app" where
  "agent_initialization_block ev s =
     (case needs_agent s of
        Inl e \<Rightarrow> (Raised e, s)
      | Inr False \<Rightarrow> (Completed, s)
      | Inr True \<Rightarrow>
          (let s1 = display (StSpinner ''Initializing agent...'') s in
           case initialize_agent ev s1 of
             (Inl e, s2) \<Rightarrow> (Raised e, s2)
           | (Inr (c, a), s2) \<Rightarrow>
               (let s3 = s2\<lparr>client := Some c, agent := Some a\<rparr> in
                if truthy a
                then (Completed, display (StSuccess ''Agent initialized successfully!'') s3)
                else (Completed, display
                  (StError ''Failed to initialize agent. Please check your configuration.'') s3))))"

section \<open>The chat input handler (lines 189 to 212)\<close>

text \<open>
  \<open>user_input\<close> is what \<^verbatim>\<open>st.chat_input\<close> returns: \<open>None\<close> or the submitted text;
  \<^verbatim>\<open>if user_input:\<close> holds for a text that is not empty.
\<close>

definition user_entry :: "string \<Rightarrow> entry" where
  "user_entry text = \<lparr>role = ''user'', content = text\<rparr>"

definition assistant_entry :: "string \<Rightarrow> entry" where
  "assistant_entry text = \<lparr>role = ''assistant'', content = text\<rparr>"

text \<open>
  The body of the \<^verbatim>\<open>try\<close> (lines 199 to 209), then the handler (lines 211 and 212), which
  is \<^verbatim>\<open>except Exception\<close>: any other exception leaves the block.
\<close>

definition turn_try :: "env \<Rightarrow> string \<Rightarrow> app \<Rightarrow> (exn + outcome) \<times> app" where
  "turn_try ev text s =
     (case agent s of
        None \<Rightarrow> (Inl (AttributeError ''agent''), s)
      | Some (Obj a) \<Rightarrow>
          (let s1 = invoke (Call_run a text) s in
           case run ev a text of
             Inl e \<Rightarrow> (Inl e, s1)
           | Inr response \<Rightarrow>
               (case messages s1 of
                  None \<Rightarrow> (Inl (AttributeError ''messages''), s1)
                | Some ms \<Rightarrow>
                    (let s2 = s1\<lparr>messages := Some (ms @ [assistant_entry response])\<rparr>
                     in (Inr Rerun, invoke Call_experimental_rerun s2))))
      | Some PyNone \<Rightarrow>
          (let s1 = display
             (StError ''Agent is not initialized. Please try restarting the app.'') s
           in (Inr Rerun, invoke Call_experimental_rerun s1)))"

definition user_input_handler :: "env \<Rightarrow> string option \<Rightarrow> app \<Rightarrow> outcome \<times> app" where
  "user_input_handler ev user_input s =
     (case user_input of
        None \<Rightarrow> (Completed, s)
      | Some text \<Rightarrow>
          if text = [] then (Completed, s)
          else
            (case messages s of
               None \<Rightarrow> (Raised (AttributeError ''messages''), s)
             | Some ms \<Rightarrow>
                 (let s1 = s\<lparr>messages := Some (ms @ [user_entry text])\<rparr>;
                      s2 = display (StSpinner ''Thinking...'') s1
                  in case turn_try ev text s2 of
                       (Inr out, s3) \<Rightarrow> (out, s3)
                     | (Inl e, s3) \<Rightarrow>
                         if is_Exception e
                         then (Completed, display (StError (''Error: '' @ msg e)) s3)
                         else (Raised e, s3))))"

section \<open>The shutdown hook (lines 215 to 220)\<close>





section \<open>Render cycles\<close>

text \<open>Line 143: the session keeps the model that the selection box returns.\<close>

definition select_model :: "string \<Rightarrow> app \<Rightarrow> app" where
  "select_model picked s = s\<lparr>selected_model := Some picked\<rparr>"

text \<open>
  The framework runs the script again on every interaction, so over the life of a session
  the blocks above run many times, each time against the libraries as they then behave.
\<close>

datatype op =
    Op_init_session_state
  | Op_select_model string
  | Op_new_conversation env bool
  | Op_agent_initialization env
  | Op_user_input env "string option"

fun step :: "op \<Rightarrow> app \<Rightarrow> app" where
  "step Op_init_session_state s = init_session_state s"
| "step (Op_select_model picked) s = select_model picked s"
| "step (Op_new_conversation ev pressed) s = snd (new_conversation ev pressed s)"
| "step (Op_agent_initialization ev) s = snd (agent_initialization_block ev s)"
| "step (Op_user_input ev user_input) s = snd (user_input_handler ev user_input s)"

fun run_ops :: "op list \<Rightarrow> app \<Rightarrow> app" where
  "run_ops [] s = s"
| "run_ops (x # xs) s = run_ops xs (step x s)"

text \<open>A sequence of submissions to the chat input, one per render cycle.\<close>

fun turns :: "(env \<times> string option) list \<Rightarrow> app \<Rightarrow> app" where
  "turns [] s = s"
| "turns ((ev, user_input) # rest) s = turns rest (snd (user_input_handler ev user_input s))"

text \<open>A handle is present when its key holds an object.\<close>

fun present :: "'a pyval option \<Rightarrow> bool" where
  "present (Some (Obj x)) = True"
| "present v = False"

definition handles_paired :: "app \<Rightarrow> bool" where
  "handles_paired s = (present (agent s) = present (client s))"

text \<open>A transcript in which the roles alternate, the first entry being the user's.\<close>

definition alternating :: "entry list \<Rightarrow> bool" where
  "alternating ms =
     (\<forall>i < length ms. role (ms ! i) = (if even i then ''user'' else ''assistant''))"

section \<open>Example sessions\<close>

text \<open>Concrete libraries and sessions, on which the theorems below are instantiated.\<close>

definition demo_client :: client where
  "demo_client = MCPClient ''browser_mcp.json''"

definition demo_agent :: agent where
  "demo_agent = MCPAgent (ChatGroq ''qwen-qwq-32b'') demo_client 15 True"

text \<open>Libraries that never raise; the agent answers every message, one session is open.\<close>

definition quiet_env :: env where
  "quiet_env =
     \<lparr>from_config_file_raises = (\<lambda>f. None),
      ChatGroq_raises = (\<lambda>m. None),
      MCPAgent_raises = (\<lambda>l c n b. None),
      run = (\<lambda>a inp. Inr (''echo '' @ inp)),
      clear_conversation_history_raises = (\<lambda>a. None),
      sessions = (\<lambda>c. [''playwright'']),
      close_all_sessions_raises = (\<lambda>c. None)\<rparr>"

text \<open>Libraries in which every call raises; no session is open.\<close>

definition broken_env :: env where
  "broken_env =
     \<lparr>from_config_file_raises = (\<lambda>f. Some (PyExn ''FileNotFoundError'' ''no such file'')),
      ChatGroq_raises = (\<lambda>m. Some (PyExn ''GroqError'' ''no api key'')),
      MCPAgent_raises = (\<lambda>l c n b. Some (PyExn ''ValueError'' ''bad agent'')),
      run = (\<lambda>a inp. Inl (PyExn ''RuntimeError'' ''boom'')),
      clear_conversation_history_raises = (\<lambda>a. Some (PyExn ''RuntimeError'' ''boom'')),
      sessions = (\<lambda>c. []),
      close_all_sessions_raises = (\<lambda>c. Some (PyExn ''RuntimeError'' ''boom''))\<rparr>"

text \<open>Libraries in which \<^verbatim>\<open>agent.run\<close> is cancelled.\<close>

definition cancelling_env :: env where
  "cancelling_env = quiet_env\<lparr>run := (\<lambda>a inp. Inl (PyBaseExn ''CancelledError'' []))\<rparr>"

text \<open>Libraries in which the construction of the client is interrupted from the keyboard.\<close>

definition interrupted_env :: env where
  "interrupted_env =
     quiet_env\<lparr>from_config_file_raises := (\<lambda>f. Some (PyBaseExn ''KeyboardInterrupt'' []))\<rparr>"




text \<open>A session with both handles set and an empty transcript.\<close>

definition ready_session :: app where
  "ready_session =
     \<lparr>messages = Some [], agent = Some (Obj demo_agent), client = Some (Obj demo_client),
      selected_model = Some ''qwen-qwq-32b'', shown = [], calls = []\<rparr>"

text \<open>A session after lines 79 to 84 and the model selection, before any agent exists.\<close>

definition idle_session :: app where
  "idle_session =
     \<lparr>messages = Some [], agent = Some PyNone, client = Some PyNone,
      selected_model = Some ''llama3-8b-8192'', shown = [], calls = []\<rparr>"

section \<open>Auxiliary facts\<close>

lemma AttributeError_is_Exception [simp]: "is_Exception (AttributeError key)"
  by (simp add: AttributeError_def)





lemma py_in_iff: "py_in sub s \<longleftrightarrow> (\<exists>p q. s = p @ sub @ q)"
proof (induction s)
  case Nil
  then show ?case by auto
next
  case (Cons c cs)
  show ?case
  proof
    assume "py_in sub (c # cs)"
    then consider "take (length sub) (c # cs) = sub" | "py_in sub cs" by auto
    then show "\<exists>p q. c # cs = p @ sub @ q"
    proof cases
      case 1
      then have "c # cs = [] @ sub @ drop (length sub) (c # cs)"
        by (metis append_Nil append_take_drop_id)
      then show ?thesis by blast
    next
      case 2
      then obtain p q where "cs = p @ sub @ q" using Cons.IH by blast
      then have "c # cs = (c # p) @ sub @ q" by simp
      then show ?thesis by blast
    qed
  next
    assume "\<exists>p q. c # cs = p @ sub @ q"
    then obtain p q where pq: "c # cs = p @ sub @ q" by blast
    show "py_in sub (c # cs)"
    proof (cases p)
      case Nil
      then have "take (length sub) (c # cs) = sub" using pq by simp
      then show ?thesis by simp
    next
      case (Cons x p')
      then have "cs = p' @ sub @ q" using pq by simp
      then have "py_in sub cs" using Cons.IH by blast
      then show ?thesis by simp
    qed
  qed
qed

lemma user_input_handler_agent: "agent (snd (user_input_handler ev u s)) = agent s"
  by (auto simp: user_input_handler_def turn_try_def display_def invoke_def Let_def
      split: if_splits option.splits pyval.splits sum.splits prod.splits)

lemma user_input_handler_client: "client (snd (user_input_handler ev u s)) = client s"
  by (auto simp: user_input_handler_def turn_try_def display_def invoke_def Let_def
      split: if_splits option.splits pyval.splits sum.splits prod.splits)

lemma successful_turn:
  assumes "agent s = Some (Obj a)" and "messages s = Some ms" and "inp \<noteq> []"
    and "run ev a inp = Inr r"
  shows "user_input_handler ev (Some inp) s =
    (Rerun, s\<lparr>messages := Some (ms @ [user_entry inp, assistant_entry r]),
              shown := shown s @ [StSpinner ''Thinking...''],
              calls := calls s @ [Call_run a inp, Call_experimental_rerun]\<rparr>)"
  using assms
  by (simp add: user_input_handler_def turn_try_def display_def invoke_def Let_def)

lemma alternating_Nil: "alternating []"
  by (simp add: alternating_def)

lemma alternating_pair_Cons:
  assumes "alternating ms"
  shows "alternating (user_entry u # assistant_entry r # ms)"
  unfolding alternating_def
proof (intro allI impI)
  fix i
  assume "i < length (user_entry u # assistant_entry r # ms)"
  then consider "i = 0" | "i = 1" | j where "i = Suc (Suc j)" "j < length ms"
    by (cases i; cases "i - 1") auto
  then show "role ((user_entry u # assistant_entry r # ms) ! i) =
      (if even i then ''user'' else ''assistant'')"
  proof cases
    case 1
    then show ?thesis by (simp add: user_entry_def)
  next
    case 2
    then show ?thesis by (simp add: assistant_entry_def)
  next
    case 3
    then show ?thesis using assms by (simp add: alternating_def)
  qed
qed

lemma turns_append:
  assumes "agent s = Some (Obj a)" and "messages s = Some ms0"
    and "\<forall>(ev, u) \<in> set ts. \<exists>inp r. u = Some inp \<and> inp \<noteq> [] \<and> run ev a inp = Inr r"
  shows "\<exists>ms. messages (turns ts s) = Some (ms0 @ ms) \<and> length ms = 2 * length ts
    \<and> alternating ms"
  using assms
proof (induction ts arbitrary: s ms0)
  case Nil
  then show ?case by (simp add: alternating_Nil)
next
  case (Cons t ts)
  obtain ev u where t: "t = (ev, u)" by (cases t)
  from Cons.prems(3) t obtain inp r
    where u: "u = Some inp" "inp \<noteq> []" "run ev a inp = Inr r"
    by auto
  let ?s1 = "snd (user_input_handler ev u s)"
  let ?pair = "[user_entry inp, assistant_entry r]"
  have h: "user_input_handler ev u s =
      (Rerun, s\<lparr>messages := Some (ms0 @ ?pair),
              shown := shown s @ [StSpinner ''Thinking...''],
              calls := calls s @ [Call_run a inp, Call_experimental_rerun]\<rparr>)"
    using successful_turn[OF Cons.prems(1,2) u(2,3)] u(1) by simp
  have m1: "messages ?s1 = Some (ms0 @ ?pair)" by (simp add: h)
  have a1: "agent ?s1 = Some (Obj a)" using Cons.prems(1) by (simp add: h)
  have rest: "\<forall>(ev, u) \<in> set ts. \<exists>inp r. u = Some inp \<and> inp \<noteq> [] \<and> run ev a inp = Inr r"
    using Cons.prems(3) by simp
  from Cons.IH[OF a1 m1 rest]
  obtain ms where ms: "messages (turns ts ?s1) = Some ((ms0 @ ?pair) @ ms)"
    "length ms = 2 * length ts" "alternating ms" by blast
  have "messages (turns (t # ts) s) = Some (ms0 @ (?pair @ ms))"
    using ms(1) t by simp
  moreover have "length (?pair @ ms) = 2 * length (t # ts)"
    using ms(2) by simp
  moreover have "alternating (?pair @ ms)"
    using alternating_pair_Cons[OF ms(3)] by simp
  ultimately show ?case by blast
qed

lemmas initializer_defs =
  initialize_agent_def initialize_agent_try_def new_client_def new_llm_def new_agent_def
  display_def invoke_def Let_def

lemma initialize_agent_handles:
  "(\<exists>e. fst (initialize_agent ev s) = Inl e)
   \<or> fst (initialize_agent ev s) = Inr (PyNone, PyNone)
   \<or> (\<exists>c a. fst (initialize_agent ev s) = Inr (Obj c, Obj a))"
  by (auto simp: initializer_defs split: option.splits)

lemma initialize_agent_session:
  "messages (snd (initialize_agent ev s)) = messages s
   \<and> agent (snd (initialize_agent ev s)) = agent s
   \<and> client (snd (initialize_agent ev s)) = client s
   \<and> selected_model (snd (initialize_agent ev s)) = selected_model s"
  by (auto simp: initializer_defs split: option.splits)

lemma initialize_agent_attempts:
  "\<exists>rest. calls (snd (initialize_agent ev s)) =
     calls s @ Call_from_config_file ''browser_mcp.json'' # rest"
  by (auto simp: initializer_defs split: option.splits)

lemma agent_initialization_block_attempts:
  assumes "needs_agent s = Inr True"
  shows "\<exists>rest. calls (snd (agent_initialization_block ev s)) =
     calls s @ Call_from_config_file ''browser_mcp.json'' # rest"
proof -
  let ?s1 = "display (StSpinner ''Initializing agent...'') s"
  obtain rest where r: "calls (snd (initialize_agent ev ?s1)) =
      calls ?s1 @ Call_from_config_file ''browser_mcp.json'' # rest"
    using initialize_agent_attempts by blast
  have "calls ?s1 = calls s" by (simp add: display_def)
  then have "calls (snd (agent_initialization_block ev s)) =
      calls s @ Call_from_config_file ''browser_mcp.json'' # rest"
    using assms r
    by (auto simp: agent_initialization_block_def Let_def display_def split: prod.splits sum.splits)
  then show ?thesis by blast
qed

lemma agent_initialization_block_handles:
  assumes "needs_agent s = Inr True"
  shows "(agent (snd (agent_initialization_block ev s)) = agent s
          \<and> client (snd (agent_initialization_block ev s)) = client s)
       \<or> (agent (snd (agent_initialization_block ev s)) = Some PyNone
          \<and> client (snd (agent_initialization_block ev s)) = Some PyNone)
       \<or> (\<exists>c a. agent (snd (agent_initialization_block ev s)) = Some (Obj a)
          \<and> client (snd (agent_initialization_block ev s)) = Some (Obj c))"
proof -
  let ?s1 = "display (StSpinner ''Initializing agent...'') s"
  have keep: "agent (snd (initialize_agent ev ?s1)) = agent s
      \<and> client (snd (initialize_agent ev ?s1)) = client s"
    using initialize_agent_session[of ev ?s1] by (simp add: display_def)
  from initialize_agent_handles[of ev ?s1]
  show ?thesis using assms keep
    by (auto simp: agent_initialization_block_def Let_def display_def
        split: prod.splits sum.splits)
qed

lemma agent_initialization_block_paired:
  assumes "handles_paired s"
  shows "handles_paired (snd (agent_initialization_block ev s))"
proof (cases "needs_agent s")
  case (Inl e)
  then show ?thesis using assms by (simp add: agent_initialization_block_def)
next
  case (Inr b)
  show ?thesis
  proof (cases b)
    case True
    then show ?thesis
      using agent_initialization_block_handles[of s ev] Inr assms
      by (auto simp: handles_paired_def)
  next
    case False
    then show ?thesis using assms Inr by (simp add: agent_initialization_block_def)
  qed
qed

lemma init_session_state_paired:
  assumes "handles_paired s"
  shows "handles_paired (init_session_state s)"
proof -
  have "present (agent (init_session_state s)) = present (agent s)"
    by (cases "agent s") (simp_all add: init_session_state_def Let_def)
  moreover have "present (client (init_session_state s)) = present (client s)"
    by (cases "client s") (simp_all add: init_session_state_def Let_def)
  ultimately show ?thesis using assms by (simp add: handles_paired_def)
qed

lemma new_conversation_paired:
  assumes "handles_paired s"
  shows "handles_paired (snd (new_conversation ev pressed s))"
  using assms
  by (auto simp: new_conversation_def handles_paired_def invoke_def Let_def
      split: option.splits pyval.splits)

lemma step_paired:
  assumes "handles_paired s"
  shows "handles_paired (step x s)"
proof (cases x)
  case Op_init_session_state
  then show ?thesis using assms by (simp add: init_session_state_paired)
next
  case (Op_select_model picked)
  then show ?thesis using assms by (simp add: select_model_def handles_paired_def)
next
  case (Op_new_conversation ev pressed)
  then show ?thesis using assms by (simp add: new_conversation_paired)
next
  case (Op_agent_initialization ev)
  then show ?thesis using assms by (simp add: agent_initialization_block_paired)
next
  case (Op_user_input ev u)
  then show ?thesis using assms
    by (simp add: handles_paired_def user_input_handler_agent user_input_handler_client)
qed

lemma run_ops_paired:
  assumes "handles_paired s"
  shows "handles_paired (run_ops xs s)"
  using assms by (induction xs arbitrary: s) (simp_all add: step_paired)

section \<open>The transcript after successful turns\<close>

text \<open>
  Claim C1.  A turn is successful when a text that is not empty is submitted, the agent
  handle is set and \<^verbatim>\<open>agent.run\<close> returns.  After any number of successful turns the
  transcript is the one before them followed by two entries for each turn, whose roles
  alternate between user and assistant and start with user.  From the empty transcript,
  N turns leave exactly 2N entries; a single turn appends one user entry followed by one
  assistant entry.
\<close>

theorem successful_turns_transcript:
  assumes "agent s = Some (Obj a)" and "messages s = Some ms0"
    and "\<forall>(ev, u) \<in> set ts. \<exists>inp r. u = Some inp \<and> inp \<noteq> [] \<and> run ev a inp = Inr r"
  shows "\<exists>ms. messages (turns ts s) = Some (ms0 @ ms) \<and> length ms = 2 * length ts
    \<and> alternating ms"
  using assms by (rule turns_append)

theorem successful_turns_transcript_witness:
  "agent ready_session = Some (Obj demo_agent) \<and> messages ready_session = Some []
   \<and> (\<exists>ms. messages (turns [(quiet_env, Some ''hello''), (quiet_env, Some ''again'')]
        ready_session) = Some ([] @ ms)
      \<and> length ms = 2 * length [(quiet_env, Some ''hello''), (quiet_env, Some ''again'')]
      \<and> alternating ms)"
proof -
  have a: "agent ready_session = Some (Obj demo_agent)"
    by (simp add: ready_session_def)
  have m: "messages ready_session = Some []"
    by (simp add: ready_session_def)
  have r: "\<forall>(ev, u) \<in> set [(quiet_env, Some ''hello''), (quiet_env, Some ''again'')].
      \<exists>inp r. u = Some inp \<and> inp \<noteq> [] \<and> run ev demo_agent inp = Inr r"
    by (simp add: quiet_env_def)
  show ?thesis
    using a m successful_turns_transcript[OF a m r] by blast
qed

section \<open>The configuration loader\<close>

text \<open>
  Claim C2, as stated, says that the loader returns the models read from the file when
  loading succeeds and that every failure, a missing \<^verbatim>\<open>models\<close> key included, yields the one
  fallback list of three models.  It fails twice.  On a file that parses to an object
  without the \<^verbatim>\<open>models\<close> key, \<^verbatim>\<open>config.get("models", ["qwen-qwq-32b"])\<close> answers its own
  default, a list of one model.  And once a result is cached the file is not read again: a
  process whose first call found no file keeps answering the fallback list after a file
  with a \<^verbatim>\<open>models\<close> key has appeared.
\<close>

theorem load_models_missing_key_counterexample:
  "fst (load_models None (Inr (JObject [(''mcpServers'', JObject [])]))) =
     JArray [JString ''qwen-qwq-32b'']
   \<and> fst (load_models None (Inr (JObject [(''mcpServers'', JObject [])]))) \<noteq>
     JArray [JString ''qwen-qwq-32b'', JString ''llama3-8b-8192'', JString ''llama3-70b-8192'']
   \<and> fst (load_models
       (snd (load_models None (Inl (PyExn ''FileNotFoundError'' ''browser_mcp.json''))))
       (Inr (JObject [(''models'', JArray [JString ''groq-llama''])]))) =
     JArray [JString ''qwen-qwq-32b'', JString ''llama3-8b-8192'', JString ''llama3-70b-8192'']"
  by (simp add: load_models_def load_models_body_def load_models_try_def Let_def)

text \<open>
  Claim C2, amended.  \<^verbatim>\<open>load_models\<close> always returns a value and never raises.  A call
  that finds a cached result returns it unchanged, whatever the file then holds.  A call
  that finds none runs the body and caches what it returns: whatever the body of the
  \<^verbatim>\<open>try\<close> raises, that is the list of the three fallback models, which is the case when
  the file cannot be opened or parsed and when the parsed value is not an object; when the
  parsed object has the key \<^verbatim>\<open>models\<close> it is the value stored under it; when the object
  lacks the key it is the one-model list \<^verbatim>\<open>["qwen-qwq-32b"]\<close>.
\<close>

theorem load_models_cases:
  "load_models (Some cached) loaded = (cached, Some cached)
   \<and> snd (load_models None loaded) = Some (fst (load_models None loaded))
   \<and> (load_models_try loaded = Inl e \<longrightarrow> fst (load_models None loaded) =
        JArray [JString ''qwen-qwq-32b'', JString ''llama3-8b-8192'', JString ''llama3-70b-8192''])
   \<and> fst (load_models None (Inl e)) =
        JArray [JString ''qwen-qwq-32b'', JString ''llama3-8b-8192'', JString ''llama3-70b-8192'']
   \<and> ((\<forall>kvs. config \<noteq> JObject kvs) \<longrightarrow>
        fst (load_models None (Inr config)) =
          JArray [JString ''qwen-qwq-32b'', JString ''llama3-8b-8192'', JString ''llama3-70b-8192''])
   \<and> (map_of kvs ''models'' = Some v \<longrightarrow> fst (load_models None (Inr (JObject kvs))) = v)
   \<and> (map_of kvs' ''models'' = None \<longrightarrow>
        fst (load_models None (Inr (JObject kvs'))) = JArray [JString ''qwen-qwq-32b''])"
proof -
  have "(\<forall>kvs. config \<noteq> JObject kvs) \<longrightarrow>
        fst (load_models None (Inr config)) =
          JArray [JString ''qwen-qwq-32b'', JString ''llama3-8b-8192'', JString ''llama3-70b-8192'']"
    by (cases config)
       (simp_all add: load_models_def load_models_body_def load_models_try_def Let_def)
  then show ?thesis
    by (simp add: load_models_def load_models_body_def load_models_try_def Let_def)
qed

theorem load_models_cases_witness:
  "load_models_try (Inr (JString ''models'')) =
      Inl (PyExn ''AttributeError'' ''object has no attribute get'')
   \<and> fst (load_models None (Inr (JString ''models''))) =
        JArray [JString ''qwen-qwq-32b'', JString ''llama3-8b-8192'', JString ''llama3-70b-8192'']
   \<and> fst (load_models None (Inl (PyBaseExn ''KeyboardInterrupt'' []))) =
        JArray [JString ''qwen-qwq-32b'', JString ''llama3-8b-8192'', JString ''llama3-70b-8192'']
   \<and> map_of [(''models'', JArray [JString ''groq-llama'', JString ''mixtral''])] ''models''
        = Some (JArray [JString ''groq-llama'', JString ''mixtral''])
   \<and> load_models None
        (Inr (JObject [(''models'', JArray [JString ''groq-llama'', JString ''mixtral''])]))
        = (JArray [JString ''groq-llama'', JString ''mixtral''],
           Some (JArray [JString ''groq-llama'', JString ''mixtral'']))
   \<and> map_of [(''mcpServers'', JObject [])] ''models'' = None
   \<and> fst (load_models None (Inr (JObject [(''mcpServers'', JObject [])]))) =
        JArray [JString ''qwen-qwq-32b'']
   \<and> load_models (Some (JArray [JString ''qwen-qwq-32b'']))
        (Inr (JObject [(''models'', JArray [JString ''groq-llama''])]))
        = (JArray [JString ''qwen-qwq-32b''], Some (JArray [JString ''qwen-qwq-32b'']))"
  using load_models_cases[of "JArray [JString ''qwen-qwq-32b'']"
      "Inr (JString ''models'')"
      "PyExn ''AttributeError'' ''object has no attribute get''" "JString ''models''"
      "[(''models'', JArray [JString ''groq-llama'', JString ''mixtral''])]"
      "JArray [JString ''groq-llama'', JString ''mixtral'']"
      "[(''mcpServers'', JObject [])]"]
    load_models_cases[of "JArray [JString ''qwen-qwq-32b'']"
      "Inr (JObject [(''models'', JArray [JString ''groq-llama''])])"
      "PyBaseExn ''KeyboardInterrupt'' []"]
  by (simp add: load_models_def load_models_body_def load_models_try_def Let_def)

section \<open>A turn in which the agent raises\<close>

text \<open>
  Claim C3, as stated, says that any exception raised by the agent call is caught and
  shown.  The handler of line 211 is \<^verbatim>\<open>except Exception\<close>: a call that is cancelled raises
  \<^verbatim>\<open>asyncio.CancelledError\<close>, which is not an \<^verbatim>\<open>Exception\<close>, so it leaves the handler and
  no error message is shown.
\<close>

theorem cancelled_turn_counterexample:
  "agent ready_session = Some (Obj demo_agent)
   \<and> run cancelling_env demo_agent ''hello'' = Inl (PyBaseExn ''CancelledError'' [])
   \<and> user_input_handler cancelling_env (Some ''hello'') ready_session =
      (Raised (PyBaseExn ''CancelledError'' []),
       ready_session\<lparr>messages := Some [user_entry ''hello''],
         shown := [StSpinner ''Thinking...''],
         calls := [Call_run demo_agent ''hello'']\<rparr>)"
  by (simp add: user_input_handler_def turn_try_def display_def invoke_def Let_def
      ready_session_def cancelling_env_def quiet_env_def)

text \<open>
  Claim C3, amended.  When a text is submitted, the agent handle is set and
  \<^verbatim>\<open>agent.run\<close> raises, the user entry appended before the call stays in the transcript and
  no assistant entry follows it, so a transcript of even length becomes one of odd length.
  An exception that is an instance of \<^verbatim>\<open>Exception\<close> is caught and shown as an error
  message, and the block completes.  Any other exception leaves the handler and nothing
  is shown.
\<close>

theorem failed_turn_keeps_user_entry:
  assumes "agent s = Some (Obj a)" and "messages s = Some ms" and "inp \<noteq> []"
    and "run ev a inp = Inl e"
  shows "(is_Exception e \<longrightarrow>
        user_input_handler ev (Some inp) s =
          (Completed, s\<lparr>messages := Some (ms @ [user_entry inp]),
             shown := shown s @ [StSpinner ''Thinking...'', StError (''Error: '' @ msg e)],
             calls := calls s @ [Call_run a inp]\<rparr>))
    \<and> (\<not> is_Exception e \<longrightarrow>
        user_input_handler ev (Some inp) s =
          (Raised e, s\<lparr>messages := Some (ms @ [user_entry inp]),
             shown := shown s @ [StSpinner ''Thinking...''],
             calls := calls s @ [Call_run a inp]\<rparr>))
    \<and> messages (snd (user_input_handler ev (Some inp) s)) = Some (ms @ [user_entry inp])
    \<and> (even (length ms) \<longrightarrow> odd (length (ms @ [user_entry inp])))"
  using assms
  by (simp add: user_input_handler_def turn_try_def display_def invoke_def Let_def)

theorem failed_turn_keeps_user_entry_witness:
  "agent ready_session = Some (Obj demo_agent) \<and> messages ready_session = Some []
   \<and> ''hello'' \<noteq> [] \<and> run broken_env demo_agent ''hello'' = Inl (PyExn ''RuntimeError'' ''boom'')
   \<and> is_Exception (PyExn ''RuntimeError'' ''boom'')
   \<and> user_input_handler broken_env (Some ''hello'') ready_session =
      (Completed, ready_session\<lparr>messages := Some [user_entry ''hello''],
         shown := [StSpinner ''Thinking...'', StError ''Error: boom''],
         calls := [Call_run demo_agent ''hello'']\<rparr>)
   \<and> \<not> is_Exception (PyBaseExn ''CancelledError'' [])
   \<and> messages (snd (user_input_handler cancelling_env (Some ''hello'') ready_session)) =
        Some [user_entry ''hello'']
   \<and> even (length ([] :: entry list)) \<and> odd (length [user_entry ''hello''])"
  using failed_turn_keeps_user_entry[of ready_session demo_agent "[]" "''hello''" broken_env
      "PyExn ''RuntimeError'' ''boom''"]
    failed_turn_keeps_user_entry[of ready_session demo_agent "[]" "''hello''" cancelling_env
      "PyBaseExn ''CancelledError'' []"]
  by (simp add: ready_session_def broken_env_def cancelling_env_def quiet_env_def)

section \<open>The choice of the LLM\<close>

text \<open>
  Claim C4.  Once the client has been constructed, \<^verbatim>\<open>initialize_agent\<close> constructs exactly
  one LLM binding, \<^verbatim>\<open>ChatGroq\<close>, whose model is the selected model when that name contains
  \<^verbatim>\<open>groq\<close> as a substring and \<^verbatim>\<open>qwen-qwq-32b\<close> otherwise; the agent is built from that
  binding and the client, with 15 steps and memory enabled.
\<close>

theorem llm_chosen_by_substring:
  assumes "from_config_file_raises ev ''browser_mcp.json'' = None"
    and "selected_model s = Some m"
  shows "(py_in ''groq'' m \<longleftrightarrow> (\<exists>p q. m = p @ ''groq'' @ q))
    \<and> (let chosen = (if py_in ''groq'' m then m else ''qwen-qwq-32b'') in
         calls (snd (initialize_agent ev s)) =
           calls s @ [Call_from_config_file ''browser_mcp.json'', Call_ChatGroq chosen]
             @ (if ChatGroq_raises ev chosen = None
                then [Call_MCPAgent (ChatGroq chosen) (MCPClient ''browser_mcp.json'') 15 True]
                else [])
         \<and> (ChatGroq_raises ev chosen = None
            \<and> MCPAgent_raises ev (ChatGroq chosen) (MCPClient ''browser_mcp.json'') 15 True = None
            \<longrightarrow> fst (initialize_agent ev s) =
                  Inr (Obj (MCPClient ''browser_mcp.json''),
                       Obj (MCPAgent (ChatGroq chosen) (MCPClient ''browser_mcp.json'') 15 True))))"
proof -
  have "py_in ''groq'' m \<longleftrightarrow> (\<exists>p q. m = p @ ''groq'' @ q)"
    by (rule py_in_iff)
  moreover have "let chosen = (if py_in ''groq'' m then m else ''qwen-qwq-32b'') in
         calls (snd (initialize_agent ev s)) =
           calls s @ [Call_from_config_file ''browser_mcp.json'', Call_ChatGroq chosen]
             @ (if ChatGroq_raises ev chosen = None
                then [Call_MCPAgent (ChatGroq chosen) (MCPClient ''browser_mcp.json'') 15 True]
                else [])
         \<and> (ChatGroq_raises ev chosen = None
            \<and> MCPAgent_raises ev (ChatGroq chosen) (MCPClient ''browser_mcp.json'') 15 True = None
            \<longrightarrow> fst (initialize_agent ev s) =
                  Inr (Obj (MCPClient ''browser_mcp.json''),
                       Obj (MCPAgent (ChatGroq chosen) (MCPClient ''browser_mcp.json'') 15 True)))"
    using assms
    by (cases "py_in ''groq'' m")
       (auto simp: initializer_defs split: option.splits)
  ultimately show ?thesis by blast
qed

theorem llm_chosen_by_substring_witness:
  "from_config_file_raises quiet_env ''browser_mcp.json'' = None
   \<and> selected_model idle_session = Some ''llama3-8b-8192''
   \<and> fst (initialize_agent quiet_env idle_session) =
       Inr (Obj (MCPClient ''browser_mcp.json''),
        Obj (MCPAgent (ChatGroq ''qwen-qwq-32b'') (MCPClient ''browser_mcp.json'') 15 True))
   \<and> fst (initialize_agent quiet_env (select_model ''groq-llama3'' idle_session)) =
       Inr (Obj (MCPClient ''browser_mcp.json''),
        Obj (MCPAgent (ChatGroq ''groq-llama3'') (MCPClient ''browser_mcp.json'') 15 True))"
  using llm_chosen_by_substring[of quiet_env idle_session "''llama3-8b-8192''"]
    llm_chosen_by_substring[of quiet_env "select_model ''groq-llama3'' idle_session"
      "''groq-llama3''"]
  by (simp add: idle_session_def select_model_def initializer_defs quiet_env_def)

section \<open>A failing initialization\<close>

text \<open>
  Claim C5, as stated, says that any exception raised during the initialization yields
  \<^verbatim>\<open>(None, None)\<close> and an error message.  The handler of line 114 is
  \<^verbatim>\<open>except Exception\<close>: a \<^verbatim>\<open>KeyboardInterrupt\<close> raised while the client is constructed is
  not an \<^verbatim>\<open>Exception\<close>, so it leaves \<^verbatim>\<open>initialize_agent\<close>, which returns nothing and shows
  nothing.
\<close>

theorem interrupted_initialization_counterexample:
  "from_config_file_raises interrupted_env ''browser_mcp.json'' =
     Some (PyBaseExn ''KeyboardInterrupt'' [])
   \<and> initialize_agent interrupted_env idle_session =
     (Inl (PyBaseExn ''KeyboardInterrupt'' []),
      idle_session\<lparr>calls := [Call_from_config_file ''browser_mcp.json'']\<rparr>)
   \<and> fst (initialize_agent interrupted_env idle_session) \<noteq> Inr (PyNone, PyNone)
   \<and> shown (snd (initialize_agent interrupted_env idle_session)) = []"
  by (simp add: initialize_agent_def initialize_agent_try_def new_client_def invoke_def
      Let_def idle_session_def interrupted_env_def quiet_env_def)

text \<open>
  Claim C5, amended.  When the construction of the client, of the LLM binding or of the
  agent raises an instance of \<^verbatim>\<open>Exception\<close>, \<^verbatim>\<open>initialize_agent\<close> returns
  \<^verbatim>\<open>(None, None)\<close> and shows the exception as an error message; the initialization block
  that called it leaves both handles \<^verbatim>\<open>None\<close> and shows a second error message.  When the
  construction raises any other exception, it leaves \<^verbatim>\<open>initialize_agent\<close> and the block,
  no error message is shown and the handles stay as they were.  In both cases the
  transcript is unchanged.
\<close>

theorem initialization_failure:
  assumes "from_config_file_raises ev ''browser_mcp.json'' = Some e
     \<or> (from_config_file_raises ev ''browser_mcp.json'' = None \<and> selected_model s = Some m
        \<and> ChatGroq_raises ev (if py_in ''groq'' m then m else ''qwen-qwq-32b'') = Some e)
     \<or> (from_config_file_raises ev ''browser_mcp.json'' = None \<and> selected_model s = Some m
        \<and> ChatGroq_raises ev (if py_in ''groq'' m then m else ''qwen-qwq-32b'') = None
        \<and> MCPAgent_raises ev (ChatGroq (if py_in ''groq'' m then m else ''qwen-qwq-32b''))
             (MCPClient ''browser_mcp.json'') 15 True = Some e)"
  shows "(is_Exception e \<longrightarrow>
        fst (initialize_agent ev s) = Inr (PyNone, PyNone)
      \<and> shown (snd (initialize_agent ev s)) =
          shown s @ [StError (''Error initializing agent: '' @ msg e)]
      \<and> messages (snd (initialize_agent ev s)) = messages s
      \<and> (needs_agent s = Inr True \<longrightarrow>
           fst (agent_initialization_block ev s) = Completed
           \<and> agent (snd (agent_initialization_block ev s)) = Some PyNone
           \<and> client (snd (agent_initialization_block ev s)) = Some PyNone
           \<and> messages (snd (agent_initialization_block ev s)) = messages s
           \<and> shown (snd (agent_initialization_block ev s)) =
               shown s @ [StSpinner ''Initializing agent...'',
                 StError (''Error initializing agent: '' @ msg e),
                 StError ''Failed to initialize agent. Please check your configuration.'']))
    \<and> (\<not> is_Exception e \<longrightarrow>
        fst (initialize_agent ev s) = Inl e
      \<and> shown (snd (initialize_agent ev s)) = shown s
      \<and> messages (snd (initialize_agent ev s)) = messages s
      \<and> (needs_agent s = Inr True \<longrightarrow>
           fst (agent_initialization_block ev s) = Raised e
           \<and> agent (snd (agent_initialization_block ev s)) = agent s
           \<and> client (snd (agent_initialization_block ev s)) = client s
           \<and> messages (snd (agent_initialization_block ev s)) = messages s
           \<and> shown (snd (agent_initialization_block ev s)) =
               shown s @ [StSpinner ''Initializing agent...'']))"
proof -
  have raised: "\<exists>s1. initialize_agent_try ev t = (Inl e, s1) \<and> shown s1 = shown t
      \<and> messages s1 = messages t \<and> agent s1 = agent t \<and> client s1 = client t"
    if "selected_model t = selected_model s" for t
    using assms that
    by (cases "py_in ''groq'' m")
       (auto simp: initialize_agent_try_def new_client_def new_llm_def new_agent_def
          invoke_def Let_def)
  let ?s1 = "display (StSpinner ''Initializing agent...'') s"
  have sel: "selected_model ?s1 = selected_model s" by (simp add: display_def)
  have caught: "fst (initialize_agent ev s) = Inr (PyNone, PyNone)
      \<and> shown (snd (initialize_agent ev s)) =
          shown s @ [StError (''Error initializing agent: '' @ msg e)]
      \<and> messages (snd (initialize_agent ev s)) = messages s
      \<and> (needs_agent s = Inr True \<longrightarrow>
           fst (agent_initialization_block ev s) = Completed
           \<and> agent (snd (agent_initialization_block ev s)) = Some PyNone
           \<and> client (snd (agent_initialization_block ev s)) = Some PyNone
           \<and> messages (snd (agent_initialization_block ev s)) = messages s
           \<and> shown (snd (agent_initialization_block ev s)) =
               shown s @ [StSpinner ''Initializing agent...'',
                 StError (''Error initializing agent: '' @ msg e),
                 StError ''Failed to initialize agent. Please check your configuration.''])"
    if exc: "is_Exception e"
  proof -
    have init: "fst (initialize_agent ev t) = Inr (PyNone, PyNone)
        \<and> shown (snd (initialize_agent ev t)) =
            shown t @ [StError (''Error initializing agent: '' @ msg e)]
        \<and> messages (snd (initialize_agent ev t)) = messages t"
      if "selected_model t = selected_model s" for t
      using raised[OF that] exc by (auto simp: initialize_agent_def display_def)
    have block: "fst (agent_initialization_block ev s) = Completed
           \<and> agent (snd (agent_initialization_block ev s)) = Some PyNone
           \<and> client (snd (agent_initialization_block ev s)) = Some PyNone
           \<and> messages (snd (agent_initialization_block ev s)) = messages s
           \<and> shown (snd (agent_initialization_block ev s)) =
               shown s @ [StSpinner ''Initializing agent...'',
                 StError (''Error initializing agent: '' @ msg e),
                 StError ''Failed to initialize agent. Please check your configuration.'']"
      if need: "needs_agent s = Inr True"
      using init[OF sel] need
      by (auto simp: agent_initialization_block_def Let_def display_def
          split: prod.splits sum.splits)
    show ?thesis using init[of s] block by simp
  qed
  have escaped: "fst (initialize_agent ev s) = Inl e
      \<and> shown (snd (initialize_agent ev s)) = shown s
      \<and> messages (snd (initialize_agent ev s)) = messages s
      \<and> (needs_agent s = Inr True \<longrightarrow>
           fst (agent_initialization_block ev s) = Raised e
           \<and> agent (snd (agent_initialization_block ev s)) = agent s
           \<and> client (snd (agent_initialization_block ev s)) = client s
           \<and> messages (snd (agent_initialization_block ev s)) = messages s
           \<and> shown (snd (agent_initialization_block ev s)) =
               shown s @ [StSpinner ''Initializing agent...''])"
    if exc: "\<not> is_Exception e"
  proof -
    have init: "fst (initialize_agent ev t) = Inl e
        \<and> shown (snd (initialize_agent ev t)) = shown t
        \<and> messages (snd (initialize_agent ev t)) = messages t
        \<and> agent (snd (initialize_agent ev t)) = agent t
        \<and> client (snd (initialize_agent ev t)) = client t"
      if "selected_model t = selected_model s" for t
      using raised[OF that] exc by (auto simp: initialize_agent_def)
    have block: "fst (agent_initialization_block ev s) = Raised e
           \<and> agent (snd (agent_initialization_block ev s)) = agent s
           \<and> client (snd (agent_initialization_block ev s)) = client s
           \<and> messages (snd (agent_initialization_block ev s)) = messages s
           \<and> shown (snd (agent_initialization_block ev s)) =
               shown s @ [StSpinner ''Initializing agent...'']"
      if need: "needs_agent s = Inr True"
      using init[OF sel] need
      by (auto simp: agent_initialization_block_def Let_def display_def
          split: prod.splits sum.splits)
    show ?thesis using init[of s] block by simp
  qed
  show ?thesis using caught escaped by blast
qed

theorem initialization_failure_witness:
  "from_config_file_raises (quiet_env\<lparr>MCPAgent_raises := (\<lambda>l c n b. Some (PyExn ''ValueError'' ''bad agent''))\<rparr>)
      ''browser_mcp.json'' = None
   \<and> selected_model idle_session = Some ''llama3-8b-8192''
   \<and> needs_agent idle_session = Inr True
   \<and> is_Exception (PyExn ''ValueError'' ''bad agent'')
   \<and> agent_initialization_block
       (quiet_env\<lparr>MCPAgent_raises := (\<lambda>l c n b. Some (PyExn ''ValueError'' ''bad agent''))\<rparr>)
       idle_session =
       (Completed, idle_session\<lparr>
          shown := [StSpinner ''Initializing agent...'',
            StError ''Error initializing agent: bad agent'',
            StError ''Failed to initialize agent. Please check your configuration.''],
          calls := [Call_from_config_file ''browser_mcp.json'', Call_ChatGroq ''qwen-qwq-32b'',
            Call_MCPAgent (ChatGroq ''qwen-qwq-32b'') (MCPClient ''browser_mcp.json'') 15 True]\<rparr>)
   \<and> \<not> is_Exception (PyBaseExn ''KeyboardInterrupt'' [])
   \<and> agent_initialization_block interrupted_env idle_session =
       (Raised (PyBaseExn ''KeyboardInterrupt'' []), idle_session\<lparr>
          shown := [StSpinner ''Initializing agent...''],
          calls := [Call_from_config_file ''browser_mcp.json'']\<rparr>)"
  using initialization_failure[of
      "quiet_env\<lparr>MCPAgent_raises := (\<lambda>l c n b. Some (PyExn ''ValueError'' ''bad agent''))\<rparr>"
      "PyExn ''ValueError'' ''bad agent''" idle_session "''llama3-8b-8192''"]
    initialization_failure[of interrupted_env "PyBaseExn ''KeyboardInterrupt'' []"
      idle_session "''llama3-8b-8192''"]
  by (simp add: idle_session_def agent_initialization_block_def needs_agent_def
      initializer_defs quiet_env_def interrupted_env_def)

section \<open>New conversation\<close>

text \<open>
  Claim C6.  Pressing New Conversation sets the transcript to the empty list and calls
  \<^verbatim>\<open>clear_conversation_history\<close> on the agent exactly once when the agent handle holds an
  object, and not at all when it is \<^verbatim>\<open>None\<close> or not set.  Without the press nothing
  changes.
\<close>

theorem new_conversation_resets:
  "messages (snd (new_conversation ev True s)) = Some []
   \<and> calls (snd (new_conversation ev True s)) =
       calls s @ (case agent s of
                    Some (Obj a) \<Rightarrow> [Call_clear_conversation_history a]
                  | _ \<Rightarrow> [])
   \<and> new_conversation ev False s = (Completed, s)"
  by (simp add: new_conversation_def invoke_def Let_def split: option.splits pyval.splits)

theorem new_conversation_resets_witness:
  "calls (snd (new_conversation quiet_env True
       (ready_session\<lparr>messages := Some [user_entry ''hello'', assistant_entry ''echo hello'']\<rparr>)))
     = [Call_clear_conversation_history demo_agent]
   \<and> messages (snd (new_conversation quiet_env True
       (ready_session\<lparr>messages := Some [user_entry ''hello'', assistant_entry ''echo hello'']\<rparr>)))
     = Some []
   \<and> calls (snd (new_conversation quiet_env True idle_session)) = []"
  using new_conversation_resets[of quiet_env
      "ready_session\<lparr>messages := Some [user_entry ''hello'', assistant_entry ''echo hello'']\<rparr>"]
    new_conversation_resets[of quiet_env idle_session]
  by (simp add: ready_session_def idle_session_def)

section \<open>The shutdown hook\<close>




section \<open>The two handles\<close>

text \<open>
  Claim C8.  In every state reached from a new session by the operations of the script, in
  any order and number and whatever the libraries do (the initialization of the session
  state, the model selection, the New Conversation button, the agent initialization block
  and the chat input handler), the agent handle and the client handle are both present or
  both absent.
\<close>

theorem handles_stay_paired:
  "handles_paired (run_ops xs fresh_session)"
proof -
  have "handles_paired fresh_session"
    by (simp add: handles_paired_def fresh_session_def)
  then show ?thesis by (rule run_ops_paired)
qed

theorem handles_stay_paired_witness:
  "handles_paired (run_ops [Op_init_session_state, Op_select_model ''llama3-8b-8192'',
      Op_agent_initialization broken_env, Op_user_input broken_env (Some ''hello''),
      Op_init_session_state, Op_agent_initialization quiet_env,
      Op_user_input quiet_env (Some ''hello''), Op_new_conversation quiet_env True]
      fresh_session)
   \<and> client (run_ops [Op_init_session_state, Op_select_model ''llama3-8b-8192'',
      Op_agent_initialization broken_env] fresh_session) = Some PyNone
   \<and> agent (run_ops [Op_init_session_state, Op_select_model ''llama3-8b-8192'',
      Op_agent_initialization broken_env] fresh_session) = Some PyNone"
  using handles_stay_paired[of "[Op_init_session_state, Op_select_model ''llama3-8b-8192'',
      Op_agent_initialization broken_env, Op_user_input broken_env (Some ''hello''),
      Op_init_session_state, Op_agent_initialization quiet_env,
      Op_user_input quiet_env (Some ''hello''), Op_new_conversation quiet_env True]"]
  by (simp add: fresh_session_def init_session_state_def select_model_def
      agent_initialization_block_def needs_agent_def initializer_defs broken_env_def)

section \<open>Retrying the construction\<close>

text \<open>
  Claim C9.  Whenever the agent initialization block is reached with both keys set and
  the agent or the client \<^verbatim>\<open>None\<close>, it attempts the construction: its first call is
  \<^verbatim>\<open>MCPClient.from_config_file\<close>.  The test reads the two handles only, so a failure is not
  remembered: when the attempt leaves the agent absent, the block of the next render cycle
  attempts the construction again, whatever the libraries do then.
\<close>

theorem construction_retried:
  assumes "agent s = Some av" and "client s = Some cv" and "av = PyNone \<or> cv = PyNone"
  shows "(\<exists>rest. calls (snd (agent_initialization_block ev s)) =
            calls s @ Call_from_config_file ''browser_mcp.json'' # rest)
    \<and> (\<not> present (agent (snd (agent_initialization_block ev s))) \<longrightarrow>
         (\<exists>rest. calls (snd (agent_initialization_block ev'
              (snd (agent_initialization_block ev s)))) =
            calls (snd (agent_initialization_block ev s))
              @ Call_from_config_file ''browser_mcp.json'' # rest))"
proof -
  have need: "needs_agent s = Inr True"
    using assms by (cases av; cases cv) (simp_all add: needs_agent_def)
  let ?s1 = "snd (agent_initialization_block ev s)"
  have first: "\<exists>rest. calls ?s1 = calls s @ Call_from_config_file ''browser_mcp.json'' # rest"
    using need by (rule agent_initialization_block_attempts)
  have again: "\<exists>rest. calls (snd (agent_initialization_block ev' ?s1)) =
      calls ?s1 @ Call_from_config_file ''browser_mcp.json'' # rest"
    if absent: "\<not> present (agent ?s1)"
  proof -
    from agent_initialization_block_handles[OF need, of ev]
    consider "agent ?s1 = agent s \<and> client ?s1 = client s" | "agent ?s1 = Some PyNone"
      using absent by auto
    then have "needs_agent ?s1 = Inr True"
    proof cases
      case 1
      then show ?thesis using need
        by (auto simp: needs_agent_def split: option.splits pyval.splits)
    next
      case 2
      then show ?thesis by (simp add: needs_agent_def)
    qed
    then show ?thesis by (rule agent_initialization_block_attempts)
  qed
  show ?thesis using first again by blast
qed

theorem construction_retried_witness:
  "agent idle_session = Some PyNone \<and> client idle_session = Some PyNone
   \<and> \<not> present (agent (snd (agent_initialization_block broken_env idle_session)))
   \<and> calls (snd (agent_initialization_block broken_env idle_session)) =
        [Call_from_config_file ''browser_mcp.json'']
   \<and> calls (snd (agent_initialization_block quiet_env
        (snd (agent_initialization_block broken_env idle_session)))) =
        [Call_from_config_file ''browser_mcp.json'', Call_from_config_file ''browser_mcp.json'',
         Call_ChatGroq ''qwen-qwq-32b'',
         Call_MCPAgent (ChatGroq ''qwen-qwq-32b'') (MCPClient ''browser_mcp.json'') 15 True]"
  using construction_retried[of idle_session PyNone PyNone broken_env quiet_env]
  by (simp add: idle_session_def agent_initialization_block_def needs_agent_def
      initializer_defs broken_env_def quiet_env_def)

section \<open>A submission without an agent\<close>

text \<open>
  Claim C10.  When a text is submitted while the agent handle is absent (\<^verbatim>\<open>None\<close>, or
  the key not set), the user entry is appended to the transcript and nothing else is, one
  error message is shown, \<^verbatim>\<open>agent.run\<close> is not called, and no exception leaves the
  handler.  With the handle \<^verbatim>\<open>None\<close> the message is the one of line 206 and the handler
  ends by requesting a rerun.
\<close>

theorem missing_agent_leaves_unpaired_entry:
  assumes "\<not> present (agent s)" and "messages s = Some ms" and "inp \<noteq> []"
  shows "messages (snd (user_input_handler ev (Some inp) s)) = Some (ms @ [user_entry inp])
    \<and> (\<exists>m. shown (snd (user_input_handler ev (Some inp) s)) =
          shown s @ [StSpinner ''Thinking...'', StError m])
    \<and> fst (user_input_handler ev (Some inp) s) \<in> {Completed, Rerun}
    \<and> (\<forall>a t. Call_run a t \<notin> set (drop (length (calls s))
          (calls (snd (user_input_handler ev (Some inp) s)))))
    \<and> (agent s = Some PyNone \<longrightarrow>
        user_input_handler ev (Some inp) s =
          (Rerun, s\<lparr>messages := Some (ms @ [user_entry inp]),
             shown := shown s @ [StSpinner ''Thinking...'',
               StError ''Agent is not initialized. Please try restarting the app.''],
             calls := calls s @ [Call_experimental_rerun]\<rparr>))"
proof (cases "agent s")
  case None
  then show ?thesis using assms
    by (simp add: user_input_handler_def turn_try_def display_def invoke_def Let_def)
next
  case (Some v)
  then have "v = PyNone" using assms(1) by (cases v) simp_all
  then show ?thesis using Some assms
    by (simp add: user_input_handler_def turn_try_def display_def invoke_def Let_def)
qed

theorem missing_agent_leaves_unpaired_entry_witness:
  "\<not> present (agent idle_session) \<and> messages idle_session = Some [] \<and> ''hello'' \<noteq> []
   \<and> agent idle_session = Some PyNone
   \<and> user_input_handler quiet_env (Some ''hello'') idle_session =
          (Rerun, idle_session\<lparr>messages := Some [user_entry ''hello''],
             shown := [StSpinner ''Thinking...'',
               StError ''Agent is not initialized. Please try restarting the app.''],
             calls := [Call_experimental_rerun]\<rparr>)"
  using missing_agent_leaves_unpaired_entry[of idle_session "[]" "''hello''" quiet_env]
  by (simp add: idle_session_def)

end
